theory Spec2Isabelle
  imports Complex_Main
begin

section \<open>Values, exceptions and the Python runtime\<close>

text \<open>
  The handlers of \<^verbatim>\<open>app/main.py\<close> work on decoded JSON: the values that
  \<^verbatim>\<open>Response.json()\<close> returns. An object is held as the list of its items (the keys of
  a decoded object are distinct); a float is a value of the type parameter \<open>'f\<close>, since the
  handlers never compute with floats, they only convert and pass them on.
\<close>

datatype 'f jvalue =
    JNull
  | JBool bool
  | JInt int
  | JFloat 'f
  | JStr string
  | JArr "'f jvalue list"
  | JObj "(string \<times> 'f jvalue) list"

text \<open>
  The exceptions the handlers can meet. \<open>RequestError\<close> is \<^verbatim>\<open>httpx.RequestError\<close>
  with its text; all the others are subclasses of \<^verbatim>\<open>Exception\<close> too.
\<close>

datatype pyexc =
    RequestError string
  | JSONDecodeError
  | AttributeError
  | TypeError
  | ValueError
  | OverflowError
  | KeyError
  | IndexError
  | ValidationError
  | OtherError string

text \<open>
  The detail of an \<^verbatim>\<open>HTTPException\<close>: a literal, an f-string that ends with the
  text of an exception (\<^verbatim>\<open>f"...: {e}"\<close>), or an f-string around a status code
  (\<^verbatim>\<open>f"... ({r.status_code})."\<close>).
\<close>

datatype detail = Lit string | Fmt string pyexc | FmtCode string int string

text \<open>
  What a handler ends with when it does not return its response model: an
  \<^verbatim>\<open>HTTPException\<close> it raised itself, or an exception nothing in the handler caught.
\<close>

datatype failure = HTTPException int detail | Unhandled pyexc

text \<open>
  What the builtins \<^verbatim>\<open>int\<close>, \<^verbatim>\<open>float\<close>, \<^verbatim>\<open>str\<close> and the pydantic
  validator of a \<^verbatim>\<open>str\<close> field do is fixed by the interpreter and the installed
  library, not by this repository. They are parameters of the model:
  \<^item> \<open>float_of_int\<close>, \<open>float_of_str\<close>: \<^verbatim>\<open>float(x)\<close> for an int and for a str;
  \<^item> \<open>int_of_float\<close>, \<open>int_of_str\<close>: \<^verbatim>\<open>int(x)\<close> for a float and for a str;
  \<^item> \<open>float_is_zero\<close>: truth value of a float (\<^verbatim>\<open>0.0\<close> is false);
  \<^item> \<open>repr_of\<close>: \<^verbatim>\<open>str(x)\<close> for a value that is not a str;
  \<^item> \<open>coerce_str\<close>: what a pydantic \<^verbatim>\<open>str\<close> field makes of a value that is neither
    a str nor \<^verbatim>\<open>None\<close> (pydantic 1 converts numbers, pydantic 2 rejects them).
\<close>

record 'f runtime =
  float_of_int :: "int \<Rightarrow> pyexc + 'f"
  float_of_str :: "string \<Rightarrow> pyexc + 'f"
  int_of_float :: "'f \<Rightarrow> pyexc + int"
  int_of_str :: "string \<Rightarrow> pyexc + int"
  float_is_zero :: "'f \<Rightarrow> bool"
  repr_of :: "'f jvalue \<Rightarrow> string"
  coerce_str :: "'f jvalue \<Rightarrow> string option"

text \<open>Sequencing of steps that may raise: the first exception ends the evaluation.\<close>

definition and_then :: "pyexc + 'a \<Rightarrow> ('a \<Rightarrow> pyexc + 'b) \<Rightarrow> pyexc + 'b" where
  "and_then m k = (case m of Inl e \<Rightarrow> Inl e | Inr x \<Rightarrow> k x)"

subsection \<open>Builtins on decoded JSON\<close>

text \<open>\<^verbatim>\<open>x.get(key, default)\<close>: only a dict has the method.\<close>

definition py_get_default :: "'f jvalue \<Rightarrow> string \<Rightarrow> 'f jvalue \<Rightarrow> pyexc + 'f jvalue" where
  "py_get_default x key dflt =
     (case x of
        JObj items \<Rightarrow> (case map_of items key of None \<Rightarrow> Inr dflt | Some v \<Rightarrow> Inr v)
      | _ \<Rightarrow> Inl AttributeError)"

text \<open>\<^verbatim>\<open>x.get(key)\<close>: the default is \<^verbatim>\<open>None\<close>.\<close>

definition py_get :: "'f jvalue \<Rightarrow> string \<Rightarrow> pyexc + 'f jvalue" where
  "py_get x key = py_get_default x key JNull"

text \<open>\<^verbatim>\<open>x[key]\<close> with a str key.\<close>

definition py_item :: "'f jvalue \<Rightarrow> string \<Rightarrow> pyexc + 'f jvalue" where
  "py_item x key =
     (case x of
        JObj items \<Rightarrow> (case map_of items key of None \<Rightarrow> Inl KeyError | Some v \<Rightarrow> Inr v)
      | _ \<Rightarrow> Inl TypeError)"

text \<open>
  \<^verbatim>\<open>x[0]\<close>: the first element of a list, the first character of a str; a decoded object
  has str keys only, so \<^verbatim>\<open>0\<close> is never one of them.
\<close>

definition py_first :: "'f jvalue \<Rightarrow> pyexc + 'f jvalue" where
  "py_first x =
     (case x of
        JArr xs \<Rightarrow> (case xs of [] \<Rightarrow> Inl IndexError | y # _ \<Rightarrow> Inr y)
      | JStr s \<Rightarrow> (case s of [] \<Rightarrow> Inl IndexError | c # _ \<Rightarrow> Inr (JStr [c]))
      | JObj items \<Rightarrow> Inl KeyError
      | _ \<Rightarrow> Inl TypeError)"

text \<open>\<^verbatim>\<open>int(x)\<close>.\<close>

definition py_int :: "'f runtime \<Rightarrow> 'f jvalue \<Rightarrow> pyexc + int" where
  "py_int rt x =
     (case x of
        JInt n \<Rightarrow> Inr n
      | JBool b \<Rightarrow> Inr (if b then 1 else 0)
      | JFloat f \<Rightarrow> int_of_float rt f
      | JStr s \<Rightarrow> int_of_str rt s
      | _ \<Rightarrow> Inl TypeError)"

text \<open>\<^verbatim>\<open>float(x)\<close>.\<close>

definition py_float :: "'f runtime \<Rightarrow> 'f jvalue \<Rightarrow> pyexc + 'f" where
  "py_float rt x =
     (case x of
        JFloat f \<Rightarrow> Inr f
      | JInt n \<Rightarrow> float_of_int rt n
      | JBool b \<Rightarrow> float_of_int rt (if b then 1 else 0)
      | JStr s \<Rightarrow> float_of_str rt s
      | _ \<Rightarrow> Inl TypeError)"

text \<open>\<^verbatim>\<open>str(x)\<close>: never raises; a str is returned as it is.\<close>

definition py_str :: "'f runtime \<Rightarrow> 'f jvalue \<Rightarrow> string" where
  "py_str rt x = (case x of JStr s \<Rightarrow> s | _ \<Rightarrow> repr_of rt x)"

text \<open>The truth value of \<^verbatim>\<open>x\<close>, as \<^verbatim>\<open>x or y\<close> and \<^verbatim>\<open>not x\<close> test it.\<close>

definition truthy :: "'f runtime \<Rightarrow> 'f jvalue \<Rightarrow> bool" where
  "truthy rt x =
     (case x of
        JNull \<Rightarrow> False
      | JBool b \<Rightarrow> b
      | JInt n \<Rightarrow> n \<noteq> 0
      | JFloat f \<Rightarrow> \<not> float_is_zero rt f
      | JStr s \<Rightarrow> s \<noteq> []
      | JArr xs \<Rightarrow> xs \<noteq> []
      | JObj items \<Rightarrow> items \<noteq> [])"

text \<open>\<^verbatim>\<open>x or y\<close>.\<close>

definition py_or :: "'f runtime \<Rightarrow> 'f jvalue \<Rightarrow> 'f jvalue \<Rightarrow> 'f jvalue" where
  "py_or rt x y = (if truthy rt x then x else y)"

text \<open>\<^verbatim>\<open>s.lower()\<close> on the ASCII letters; every other character is kept.\<close>

definition lower_char :: "char \<Rightarrow> char" where
  "lower_char c =
     (case map_of (zip ''ABCDEFGHIJKLMNOPQRSTUVWXYZ'' ''abcdefghijklmnopqrstuvwxyz'') c of
        None \<Rightarrow> c
      | Some l \<Rightarrow> l)"

definition lower :: "string \<Rightarrow> string" where
  "lower s = map lower_char s"

text \<open>\<^verbatim>\<open>x.lower()\<close>: only a str has the method.\<close>

definition py_lower :: "'f jvalue \<Rightarrow> pyexc + string" where
  "py_lower x = (case x of JStr s \<Rightarrow> Inr (lower s) | _ \<Rightarrow> Inl AttributeError)"

text \<open>\<^verbatim>\<open>needle in hay\<close> for two strs: \<open>needle\<close> occurs in \<open>hay\<close> as a block.\<close>

fun str_in :: "string \<Rightarrow> string \<Rightarrow> bool" where
  "str_in needle [] = (needle = [])"
| "str_in needle (c # cs) = (take (length needle) (c # cs) = needle \<or> str_in needle cs)"

text \<open>
  A pydantic \<^verbatim>\<open>str\<close> field: a str is accepted as it is, \<^verbatim>\<open>None\<close> is rejected, and
  the library decides on the rest. An \<^verbatim>\<open>Optional[str]\<close> field accepts \<^verbatim>\<open>None\<close> too.
\<close>

definition validate_str :: "'f runtime \<Rightarrow> 'f jvalue \<Rightarrow> pyexc + string" where
  "validate_str rt x =
     (case x of
        JStr s \<Rightarrow> Inr s
      | JNull \<Rightarrow> Inl ValidationError
      | _ \<Rightarrow> (case coerce_str rt x of None \<Rightarrow> Inl ValidationError | Some s \<Rightarrow> Inr s))"

definition validate_optional_str :: "'f runtime \<Rightarrow> 'f jvalue \<Rightarrow> pyexc + string option" where
  "validate_optional_str rt x =
     (case x of
        JNull \<Rightarrow> Inr None
      | _ \<Rightarrow> and_then (validate_str rt x) (\<lambda>s. Inr (Some s)))"

section \<open>The outbound client\<close>

text \<open>
  A request of the shared \<^verbatim>\<open>httpx.AsyncClient\<close>: the URL and the query parameters.
  A response: the status code, the header lookup \<^verbatim>\<open>r.headers.get\<close>, and what
  \<^verbatim>\<open>r.json()\<close> gives, \<open>None\<close> when the body does not decode and the call raises.
\<close>

record 'f request =
  url :: string
  params :: "(string \<times> 'f jvalue) list"

record 'f response =
  status_code :: int
  headers :: "string \<rightharpoonup> string"
  json :: "'f jvalue option"

text \<open>\<^verbatim>\<open>await app.state.client.get(...)\<close> raises or returns a response.\<close>

datatype 'f outcome = Raises pyexc | Returns "'f response"

type_synonym 'f client = "'f request \<Rightarrow> 'f outcome"

text \<open>\<^verbatim>\<open>Response.is_error\<close>: a 4xx or 5xx status.\<close>

definition is_error :: "'f response \<Rightarrow> bool" where
  "is_error r = (400 \<le> status_code r \<and> status_code r \<le> 599)"

section \<open>The response models\<close>

record GitHubUserResponse =
  login :: string
  name :: "string option"
  public_repos :: int
  followers :: int
  following :: int

record 'f WeatherResponse =
  city :: string
  temperature :: 'f
  weather_description :: string

section \<open>\<^verbatim>\<open>get_github_user\<close>\<close>

text \<open>
  Lines 83 to 92, the 403 branch. The message is read under
  \<^verbatim>\<open>try: ... except Exception: pass\<close>, so that any failure leaves \<open>msg\<close> empty.
\<close>

definition forbidden_message :: "'f runtime \<Rightarrow> 'f response \<Rightarrow> string" where
  "forbidden_message rt r =
     (case (case json r of
              None \<Rightarrow> Inl JSONDecodeError
            | Some body \<Rightarrow>
                and_then (py_get body ''message'') (\<lambda>m. py_lower (py_or rt m (JStr ''''))))
      of Inl e \<Rightarrow> ''''
       | Inr msg \<Rightarrow> msg)"

definition on_forbidden :: "'f runtime \<Rightarrow> 'f response \<Rightarrow> failure" where
  "on_forbidden rt r =
     (let remaining = headers r ''X-RateLimit-Remaining'';
          msg = forbidden_message rt r
      in if remaining = Some ''0'' \<or> str_in ''rate limit'' msg
         then HTTPException 429
                (Lit ''GitHub API rate limit exceeded. Try again later or add a token.'')
         else HTTPException 403 (Lit ''GitHub API returned 403 Forbidden.''))"

text \<open>
  Lines 99 to 105: the keyword arguments are evaluated in the order written, then the
  model validates \<open>login\<close> and \<open>name\<close>; the counters are ints already.
\<close>

definition build_user :: "'f runtime \<Rightarrow> 'f jvalue \<Rightarrow> pyexc + GitHubUserResponse" where
  "build_user rt data =
     and_then (py_get data ''login'') (\<lambda>lg.
     and_then (py_get data ''name'') (\<lambda>nm.
     and_then (and_then (py_get_default data ''public_repos'' (JInt 0)) (py_int rt)) (\<lambda>pr.
     and_then (and_then (py_get_default data ''followers'' (JInt 0)) (py_int rt)) (\<lambda>fo.
     and_then (and_then (py_get_default data ''following'' (JInt 0)) (py_int rt)) (\<lambda>fg.
     and_then (validate_str rt lg) (\<lambda>lg'.
     and_then (validate_optional_str rt nm) (\<lambda>nm'.
       Inr \<lparr>login = lg', name = nm', public_repos = pr, followers = fo,
            following = fg\<rparr>)))))))"

text \<open>Lines 79 to 107: what the handler does with the response it received.\<close>

definition on_user_response :: "'f runtime \<Rightarrow> 'f response \<Rightarrow> failure + GitHubUserResponse" where
  "on_user_response rt r =
     (if status_code r = 404 then Inl (HTTPException 404 (Lit ''GitHub user not found''))
      else if status_code r = 403 then Inl (on_forbidden rt r)
      else if is_error r
        then Inl (HTTPException (status_code r)
                   (FmtCode ''GitHub API error ('' (status_code r) '').''))
      else (case json r of
              None \<Rightarrow> Inl (Unhandled JSONDecodeError)
            | Some data \<Rightarrow>
                (case build_user rt data of
                   Inl e \<Rightarrow>
                     Inl (HTTPException 500 (Fmt ''Unexpected response shape from GitHub: '' e))
                 | Inr u \<Rightarrow> Inr u)))"

text \<open>
  The handler. Beside its result it gives the requests it sent through the client, in
  order. Only \<^verbatim>\<open>httpx.RequestError\<close> is caught around the call.
\<close>

definition github_request :: "string \<Rightarrow> 'f request" where
  "github_request username = \<lparr>url = ''https://api.github.com/users/'' @ username, params = []\<rparr>"

definition get_github_user ::
  "'f runtime \<Rightarrow> 'f client \<Rightarrow> string \<Rightarrow> (failure + GitHubUserResponse) \<times> 'f request list"
where
  "get_github_user rt client username =
     (let req = github_request username in
      case client req of
        Raises e \<Rightarrow>
          (case e of
             RequestError m \<Rightarrow>
               (Inl (HTTPException 502 (Fmt ''Network error talking to GitHub: '' e)), [req])
           | _ \<Rightarrow> (Inl (Unhandled e), [req]))
      | Returns r \<Rightarrow> (on_user_response rt r, [req]))"

section \<open>\<^verbatim>\<open>get_weather\<close>\<close>

text \<open>
  Lines 161 to 168: the temperature and the description are read under
  \<^verbatim>\<open>try\<close>; the response model is built after it, where nothing catches the
  validation of \<open>city\<close>.
\<close>

definition read_payload :: "'f runtime \<Rightarrow> 'f jvalue \<Rightarrow> pyexc + ('f \<times> string)" where
  "read_payload rt payload =
     and_then (and_then (and_then (py_item payload ''main'') (\<lambda>m. py_item m ''temp''))
                 (py_float rt)) (\<lambda>temp_c.
     and_then (and_then (and_then (py_item payload ''weather'') py_first)
                 (\<lambda>w. py_item w ''description'')) (\<lambda>d.
       Inr (temp_c, py_str rt d)))"

definition on_weather_response ::
  "'f runtime \<Rightarrow> 'f jvalue \<Rightarrow> 'f response \<Rightarrow> failure + 'f WeatherResponse"
where
  "on_weather_response rt resolved_name w_resp =
     (if is_error w_resp
        then Inl (HTTPException (status_code w_resp) (Lit ''OpenWeather weather API error.''))
      else (case json w_resp of
              None \<Rightarrow> Inl (Unhandled JSONDecodeError)
            | Some payload \<Rightarrow>
                (case read_payload rt payload of
                   Inl e \<Rightarrow>
                     Inl (HTTPException 500
                            (Fmt ''Unexpected response shape from OpenWeather: '' e))
                 | Inr (temp_c, description) \<Rightarrow>
                     (case validate_str rt resolved_name of
                        Inl e \<Rightarrow> Inl (Unhandled e)
                      | Inr c \<Rightarrow>
                          Inr \<lparr>city = c, temperature = temp_c,
                               weather_description = description\<rparr>))))"

text \<open>Lines 150 to 156: the second call, with the coordinates of the first.\<close>

definition weather_request :: "string \<Rightarrow> 'f jvalue \<Rightarrow> 'f jvalue \<Rightarrow> 'f request" where
  "weather_request api_key lat lon =
     \<lparr>url = ''https://api.openweathermap.org/data/2.5/weather'',
      params = [(''lat'', lat), (''lon'', lon), (''appid'', JStr api_key),
                (''units'', JStr ''metric'')]\<rparr>"

definition current_weather ::
  "'f runtime \<Rightarrow> 'f client \<Rightarrow> string \<Rightarrow> 'f jvalue \<Rightarrow> 'f jvalue \<Rightarrow> 'f jvalue \<Rightarrow>
     (failure + 'f WeatherResponse) \<times> 'f request list"
where
  "current_weather rt client api_key lat lon resolved_name =
     (let req = weather_request api_key lat lon in
      case client req of
        Raises e \<Rightarrow>
          (case e of
             RequestError m \<Rightarrow>
               (Inl (HTTPException 502
                       (Fmt ''Network error talking to OpenWeather Weather API: '' e)), [req])
           | _ \<Rightarrow> (Inl (Unhandled e), [req]))
      | Returns w_resp \<Rightarrow> (on_weather_response rt resolved_name w_resp, [req]))"

text \<open>
  Lines 135 to 148: the geocoding response. \<^verbatim>\<open>first.get\<close> is called outside any
  \<^verbatim>\<open>try\<close>. The result is the failure, or the coordinates and the resolved name.
\<close>

definition isinstance_list :: "'f jvalue \<Rightarrow> bool" where
  "isinstance_list x = (case x of JArr xs \<Rightarrow> True | _ \<Rightarrow> False)"

definition elements :: "'f jvalue \<Rightarrow> 'f jvalue list" where
  "elements x = (case x of JArr xs \<Rightarrow> xs | _ \<Rightarrow> [])"

definition on_geo_response ::
  "'f runtime \<Rightarrow> string \<Rightarrow> 'f response \<Rightarrow> failure + ('f jvalue \<times> 'f jvalue \<times> 'f jvalue)"
where
  "on_geo_response rt city_in geo_resp =
     (if is_error geo_resp
        then Inl (HTTPException (status_code geo_resp) (Lit ''OpenWeather geocoding API error.''))
      else (case json geo_resp of
              None \<Rightarrow> Inl (Unhandled JSONDecodeError)
            | Some places \<Rightarrow>
                if \<not> isinstance_list places \<or> length (elements places) = 0
                  then Inl (HTTPException 404 (Lit ''Invalid city name or city not found.''))
                else (case elements places of
                        [] \<Rightarrow> Inl (Unhandled IndexError)
                      | first # rest \<Rightarrow>
                          (case and_then (py_get first ''lat'') (\<lambda>lat.
                                and_then (py_get first ''lon'') (\<lambda>lon.
                                and_then (py_get first ''name'') (\<lambda>nm.
                                  Inr (lat, lon, py_or rt nm (JStr city_in)))))
                           of Inl e \<Rightarrow> Inl (Unhandled e)
                            | Inr (lat, lon, resolved_name) \<Rightarrow>
                                if lat = JNull \<or> lon = JNull
                                  then Inl (HTTPException 502
                                              (Lit ''Geocoding returned no coordinates.''))
                                else Inr (lat, lon, resolved_name)))))"

text \<open>Lines 127 to 133: the first call.\<close>

definition geocode_request :: "string \<Rightarrow> string \<Rightarrow> 'f request" where
  "geocode_request api_key city_in =
     \<lparr>url = ''http://api.openweathermap.org/geo/1.0/direct'',
      params = [(''q'', JStr city_in), (''appid'', JStr api_key), (''limit'', JInt 1)]\<rparr>"

text \<open>
  The handler. \<open>env_key\<close> is \<^verbatim>\<open>os.getenv("OPENWEATHER_API_KEY")\<close>: \<open>None\<close> when the
  variable is not set. \<^verbatim>\<open>not api_key\<close> holds for \<^verbatim>\<open>None\<close> and for the empty str.
  Beside its result the handler gives the requests it sent, in order.
\<close>

definition key_not_configured :: failure where
  "key_not_configured =
     HTTPException 500
       (Lit ''OpenWeather API key not configured. Set OPENWEATHER_API_KEY env var or .env file.'')"

definition geocode_then_weather ::
  "'f runtime \<Rightarrow> 'f client \<Rightarrow> string \<Rightarrow> string \<Rightarrow>
     (failure + 'f WeatherResponse) \<times> 'f request list"
where
  "geocode_then_weather rt client api_key city_in =
     (let req = geocode_request api_key city_in in
      case client req of
        Raises e \<Rightarrow>
          (case e of
             RequestError m \<Rightarrow>
               (Inl (HTTPException 502
                       (Fmt ''Network error talking to OpenWeather Geocoding API: '' e)), [req])
           | _ \<Rightarrow> (Inl (Unhandled e), [req]))
      | Returns geo_resp \<Rightarrow>
          (case on_geo_response rt city_in geo_resp of
             Inl f \<Rightarrow> (Inl f, [req])
           | Inr (lat, lon, resolved_name) \<Rightarrow>
               (case current_weather rt client api_key lat lon resolved_name of
                  (res, sent) \<Rightarrow> (res, req # sent))))"

definition get_weather ::
  "'f runtime \<Rightarrow> 'f client \<Rightarrow> string option \<Rightarrow> string \<Rightarrow>
     (failure + 'f WeatherResponse) \<times> 'f request list"
where
  "get_weather rt client env_key city_in =
     (case env_key of
        None \<Rightarrow> (Inl key_not_configured, [])
      | Some api_key \<Rightarrow>
          if api_key = [] then (Inl key_not_configured, [])
          else geocode_then_weather rt client api_key city_in)"

section \<open>The shapes the handlers expect\<close>

text \<open>
  The profile the user-lookup handler expects: an object with a \<open>login\<close> the \<^verbatim>\<open>str\<close>
  field accepts, a \<open>name\<close> that is absent, null or accepted, and three counters that are
  each absent or convertible by \<^verbatim>\<open>int\<close>.
\<close>

definition counter_ok :: "'f runtime \<Rightarrow> (string \<times> 'f jvalue) list \<Rightarrow> string \<Rightarrow> bool" where
  "counter_ok rt items key =
     (case map_of items key of None \<Rightarrow> True | Some v \<Rightarrow> \<not> isl (py_int rt v))"

definition profile_ok :: "'f runtime \<Rightarrow> 'f jvalue \<Rightarrow> bool" where
  "profile_ok rt data =
     (case data of
        JObj items \<Rightarrow>
          (case map_of items ''login'' of
             None \<Rightarrow> False
           | Some v \<Rightarrow> \<not> isl (validate_str rt v)) \<and>
          (case map_of items ''name'' of
             None \<Rightarrow> True
           | Some v \<Rightarrow> \<not> isl (validate_optional_str rt v)) \<and>
          counter_ok rt items ''public_repos'' \<and>
          counter_ok rt items ''followers'' \<and>
          counter_ok rt items ''following''
      | _ \<Rightarrow> False)"

text \<open>
  The current-conditions body the weather handler expects: an object whose \<open>main\<close> is an
  object with a \<open>temp\<close> that \<^verbatim>\<open>float\<close> converts, and whose \<open>weather\<close> is a list that
  starts with an object holding a \<open>description\<close>.
\<close>

definition has_temp :: "'f runtime \<Rightarrow> 'f jvalue \<Rightarrow> bool" where
  "has_temp rt payload =
     (case payload of
        JObj items \<Rightarrow>
          (case map_of items ''main'' of
             Some (JObj inner) \<Rightarrow>
               (case map_of inner ''temp'' of None \<Rightarrow> False | Some t \<Rightarrow> \<not> isl (py_float rt t))
           | _ \<Rightarrow> False)
      | _ \<Rightarrow> False)"

definition has_description :: "'f jvalue \<Rightarrow> bool" where
  "has_description payload =
     (case payload of
        JObj items \<Rightarrow>
          (case map_of items ''weather'' of
             Some (JArr (JObj inner # rest)) \<Rightarrow> map_of inner ''description'' \<noteq> None
           | _ \<Rightarrow> False)
      | _ \<Rightarrow> False)"

text \<open>
  The value of a counter of a well-formed profile: 0 when the key is absent, the int
  itself, or the int that \<^verbatim>\<open>int\<close> reads from a str.
\<close>

definition counter_value :: "'f runtime \<Rightarrow> (string \<times> 'f jvalue) list \<Rightarrow> string \<Rightarrow> int option" where
  "counter_value rt items key =
     (case map_of items key of
        None \<Rightarrow> Some 0
      | Some v \<Rightarrow>
          (case v of
             JInt n \<Rightarrow> Some n
           | JStr s \<Rightarrow> (case int_of_str rt s of Inl e \<Rightarrow> None | Inr n \<Rightarrow> Some n)
           | _ \<Rightarrow> None))"

section \<open>A concrete runtime and concrete upstreams\<close>

text \<open>
  A runtime to run the handlers on examples. It follows CPython on ASCII input:
  \<^item> \<^verbatim>\<open>int(s)\<close> strips white space, takes one optional sign, and reads decimal digits
    that single underscores may separate; anything else raises \<^verbatim>\<open>ValueError\<close>;
  \<^item> \<^verbatim>\<open>float(s)\<close> strips white space, takes one optional sign, and reads digits with
    an optional fraction and an optional exponent;
  \<^item> \<^verbatim>\<open>str(x)\<close> gives \<^verbatim>\<open>None\<close>, \<^verbatim>\<open>True\<close>, \<^verbatim>\<open>False\<close> and the decimal digits of
    an int;
  \<^item> the \<^verbatim>\<open>str\<close> field is strict, as in pydantic 2.

  Its floats are the reals, and there it departs from CPython: a number is its exact
  value (no rounding to a double, no \<^verbatim>\<open>OverflowError\<close>), \<^verbatim>\<open>float\<close> raises
  \<^verbatim>\<open>ValueError\<close> on \<^verbatim>\<open>inf\<close> and \<^verbatim>\<open>nan\<close>, and \<^verbatim>\<open>str\<close> of a float, of a list and
  of a dict is a fixed mark. \<^verbatim>\<open>int\<close> has no limit on the number of digits. The
  theorems hold for every runtime; the concrete one only runs them on examples, none of
  which reaches these cases.
\<close>

definition digit_value :: "char \<Rightarrow> nat option" where
  "digit_value c =
     (let n = (of_char c :: nat) in if 48 \<le> n \<and> n \<le> 57 then Some (n - 48) else None)"

definition is_space :: "char \<Rightarrow> bool" where
  "is_space c =
     (let n = (of_char c :: nat) in n = 32 \<or> (9 \<le> n \<and> n \<le> 13) \<or> (28 \<le> n \<and> n \<le> 31))"

definition strip :: "string \<Rightarrow> string" where
  "strip s = rev (dropWhile is_space (rev (dropWhile is_space s)))"

text \<open>Digits, with single underscores between them; the first character is a digit.\<close>

fun read_digits :: "nat \<Rightarrow> string \<Rightarrow> nat option" where
  "read_digits acc [] = Some acc"
| "read_digits acc (c # cs) =
     (if c = CHR ''_''
      then (case cs of
              [] \<Rightarrow> None
            | d # ds \<Rightarrow> if digit_value d = None then None else read_digits acc cs)
      else (case digit_value c of None \<Rightarrow> None | Some d \<Rightarrow> read_digits (10 * acc + d) cs))"

definition unsigned :: "string \<Rightarrow> nat option" where
  "unsigned s =
     (case s of
        [] \<Rightarrow> None
      | c # cs \<Rightarrow> if digit_value c = None then None else read_digits 0 s)"

definition split_sign :: "string \<Rightarrow> int \<times> string" where
  "split_sign s =
     (case s of
        [] \<Rightarrow> (1, [])
      | c # cs \<Rightarrow>
          if c = CHR ''-'' then (- 1, cs) else if c = CHR ''+'' then (1, cs) else (1, s))"

definition decimal :: "string \<Rightarrow> pyexc + int" where
  "decimal s =
     (case split_sign (strip s) of
        (sign, body) \<Rightarrow>
          (case unsigned body of None \<Rightarrow> Inl ValueError | Some n \<Rightarrow> Inr (sign * int n)))"

text \<open>The number of digits of a fraction, and a power of ten with an int exponent.\<close>

definition count_digits :: "string \<Rightarrow> nat" where
  "count_digits s = length (filter (\<lambda>c. digit_value c \<noteq> None) s)"

definition scale10 :: "int \<Rightarrow> real" where
  "scale10 e = (if 0 \<le> e then 10 ^ nat e else 1 / 10 ^ nat (- e))"

text \<open>A mantissa \<^verbatim>\<open>digits[.digits]\<close> or \<^verbatim>\<open>.digits\<close>, as its exact value.\<close>

definition mantissa :: "string \<Rightarrow> real option" where
  "mantissa s =
     (let whole = takeWhile (\<lambda>c. c \<noteq> CHR ''.'') s;
          fraction = drop 1 (dropWhile (\<lambda>c. c \<noteq> CHR ''.'') s)
      in if whole = [] \<and> fraction = [] then None
         else (case (if whole = [] then Some 0 else unsigned whole) of
                 None \<Rightarrow> None
               | Some w \<Rightarrow>
                   (case (if fraction = [] then Some 0 else unsigned fraction) of
                      None \<Rightarrow> None
                    | Some f \<Rightarrow> Some (real w + real f / 10 ^ count_digits fraction))))"

definition is_exponent_mark :: "char \<Rightarrow> bool" where
  "is_exponent_mark c = (c = CHR ''e'' \<or> c = CHR ''E'')"

definition float_literal :: "string \<Rightarrow> pyexc + real" where
  "float_literal s =
     (case split_sign (strip s) of
        (sign, body) \<Rightarrow>
          (let m = takeWhile (\<lambda>c. \<not> is_exponent_mark c) body;
               rest = dropWhile (\<lambda>c. \<not> is_exponent_mark c) body
           in case mantissa m of
                None \<Rightarrow> Inl ValueError
              | Some v \<Rightarrow>
                  if rest = [] then Inr (real_of_int sign * v)
                  else (case split_sign (drop 1 rest) of
                          (esign, digits) \<Rightarrow>
                            (case unsigned digits of
                               None \<Rightarrow> Inl ValueError
                             | Some e \<Rightarrow>
                                 Inr (real_of_int sign * v * scale10 (esign * int e))))))"

text \<open>The decimal digits of a number, as \<^verbatim>\<open>str\<close> gives them for an int.\<close>

fun show_nat :: "nat \<Rightarrow> string" where
  "show_nat n =
     (if n < 10 then [''0123456789'' ! n]
      else show_nat (n div 10) @ [''0123456789'' ! (n mod 10)])"

definition show_int :: "int \<Rightarrow> string" where
  "show_int n = (if n < 0 then CHR ''-'' # show_nat (nat (- n)) else show_nat (nat n))"

definition plain_repr :: "real jvalue \<Rightarrow> string" where
  "plain_repr x =
     (case x of
        JNull \<Rightarrow> ''None''
      | JBool b \<Rightarrow> (if b then ''True'' else ''False'')
      | JInt n \<Rightarrow> show_int n
      | JStr s \<Rightarrow> s
      | JFloat f \<Rightarrow> ''<float>''
      | JArr xs \<Rightarrow> ''<list>''
      | JObj items \<Rightarrow> ''<dict>'')"

definition plain_runtime :: "real runtime" where
  "plain_runtime =
     \<lparr>float_of_int = (\<lambda>n. Inr (of_int n)),
      float_of_str = float_literal,
      int_of_float = (\<lambda>x. Inr (if 0 \<le> x then \<lfloor>x\<rfloor> else \<lceil>x\<rceil>)),
      int_of_str = decimal,
      float_is_zero = (\<lambda>x. x = 0),
      repr_of = plain_repr,
      coerce_str = (\<lambda>x. None)\<rparr>"

text \<open>An upstream that answers every request with the same response.\<close>

definition always :: "'f response \<Rightarrow> 'f client" where
  "always r req = Returns r"

text \<open>An upstream that cannot be reached.\<close>

definition unreachable :: "'f client" where
  "unreachable req = Raises (RequestError ''All connection attempts failed'')"

text \<open>
  The weather provider: the geocoding endpoint answers with \<open>geo\<close>, the
  current-conditions endpoint with \<open>cur\<close>.
\<close>

definition provider :: "'f outcome \<Rightarrow> 'f outcome \<Rightarrow> 'f client" where
  "provider geo cur req =
     (if url req = ''http://api.openweathermap.org/geo/1.0/direct'' then geo else cur)"

definition ok_json :: "'f jvalue \<Rightarrow> 'f response" where
  "ok_json body = \<lparr>status_code = 200, headers = Map.empty, json = Some body\<rparr>"

definition london :: "real jvalue" where
  "london = JArr [JObj [(''name'', JStr ''London''), (''lat'', JFloat 51.5), (''lon'', JFloat (-0.125))]]"

definition light_rain :: "real jvalue" where
  "light_rain =
     JObj [(''weather'', JArr [JObj [(''id'', JInt 500), (''description'', JStr ''light rain'')]]),
           (''main'', JObj [(''temp'', JFloat 11.5), (''humidity'', JInt 81)])]"

definition missing_user :: "real response" where
  "missing_user = \<lparr>status_code = 404, headers = Map.empty, json = None\<rparr>"

definition throttled :: "real response" where
  "throttled =
     \<lparr>status_code = 403, headers = Map.empty,
      json = Some (JObj [(''message'', JStr ''API rate limit exceeded for 203.0.113.7.'')])\<rparr>"

definition exhausted :: "real response" where
  "exhausted =
     \<lparr>status_code = 403, headers = [''X-RateLimit-Remaining'' \<mapsto> ''0''], json = None\<rparr>"

definition blocked :: "real response" where
  "blocked =
     \<lparr>status_code = 403, headers = [''X-RateLimit-Remaining'' \<mapsto> ''57''],
      json = Some (JObj [(''message'', JStr ''Repository access blocked'')])\<rparr>"

definition octocat :: "real jvalue" where
  "octocat =
     JObj [(''login'', JStr ''octocat''), (''id'', JInt 583231), (''name'', JNull),
           (''public_repos'', JStr ''12''), (''followers'', JInt 20)]"

definition nameless_place :: "real jvalue" where
  "nameless_place = JArr [JObj [(''name'', JStr ''''), (''lat'', JFloat 51.5), (''lon'', JFloat (-0.125))]]"

definition no_coordinates :: "real jvalue" where
  "no_coordinates = JArr [JObj [(''name'', JStr ''Atlantis''), (''lon'', JFloat 0)]]"

definition garbled :: "real response" where
  "garbled = \<lparr>status_code = 200, headers = Map.empty, json = None\<rparr>"

definition numeric_description :: "real jvalue" where
  "numeric_description =
     JObj [(''weather'', JArr [JObj [(''description'', JInt 500)]]),
           (''main'', JObj [(''temp'', JFloat 11.5)])]"

definition no_temp :: "real jvalue" where
  "no_temp = JObj [(''weather'', JArr [JObj [(''description'', JStr ''mist'')]]), (''main'', JObj [])]"

definition uncounted :: "real jvalue" where
  "uncounted = JObj [(''login'', JStr ''octocat''), (''public_repos'', JStr ''many'')]"

section \<open>Properties of \<^verbatim>\<open>get_github_user\<close>\<close>

lemma str_in_iff: "str_in needle hay \<longleftrightarrow> (\<exists>before after. hay = before @ needle @ after)"
proof (induction hay)
  case Nil
  then show ?case by auto
next
  case (Cons c cs)
  show ?case
  proof
    assume "str_in needle (c # cs)"
    then consider "take (length needle) (c # cs) = needle" | "str_in needle cs" by auto
    then show "\<exists>before after. c # cs = before @ needle @ after"
    proof cases
      case 1
      then have "c # cs = [] @ needle @ drop (length needle) (c # cs)"
        by (metis append_Nil append_take_drop_id)
      then show ?thesis by blast
    next
      case 2
      then obtain p s where "cs = p @ needle @ s" using Cons.IH by blast
      then have "c # cs = (c # p) @ needle @ s" by simp
      then show ?thesis by blast
    qed
  next
    assume "\<exists>before after. c # cs = before @ needle @ after"
    then obtain p s where ps: "c # cs = p @ needle @ s" by blast
    show "str_in needle (c # cs)"
    proof (cases p)
      case Nil
      then have "take (length needle) (c # cs) = needle" using ps by simp
      then show ?thesis by simp
    next
      case (Cons a p')
      then have "cs = p' @ needle @ s" using ps by simp
      then have "str_in needle cs" using Cons.IH by blast
      then show ?thesis by simp
    qed
  qed
qed

lemma get_github_user_returns:
  "client (github_request u) = Returns r \<Longrightarrow>
   get_github_user rt client u = (on_user_response rt r, [github_request u])"
  by (simp add: get_github_user_def)

lemma upstream_error_forwarded:
  assumes "client (github_request username) = Returns r"
    and "is_error r" and "status_code r \<noteq> 404" and "status_code r \<noteq> 403"
  shows "get_github_user rt client username =
           (Inl (HTTPException (status_code r)
                   (FmtCode ''GitHub API error ('' (status_code r) '').'')),
            [github_request username])"
  using assms by (simp add: get_github_user_returns on_user_response_def)

lemma forbidden_message_rate_limit:
  "str_in ''rate limit'' (forbidden_message rt r) \<longleftrightarrow>
   (\<exists>items m. json r = Some (JObj items) \<and> map_of items ''message'' = Some (JStr m) \<and>
      str_in ''rate limit'' (lower m))"
  by (auto simp: forbidden_message_def and_then_def py_get_def py_get_default_def py_lower_def
        py_or_def truthy_def lower_def
      split: option.splits jvalue.splits sum.splits if_splits)

text \<open>
  Claim C3. When the upstream answers the profile call with status 404, the handler fails
  with 404 and the detail \<^verbatim>\<open>GitHub user not found\<close>, whatever the username, the
  headers and the body; one request was sent.
\<close>

theorem not_found_404:
  assumes "client (github_request username) = Returns r" and "status_code r = 404"
  shows "get_github_user rt client username =
           (Inl (HTTPException 404 (Lit ''GitHub user not found'')), [github_request username])"
  using assms by (simp add: get_github_user_returns on_user_response_def)

theorem not_found_404_witness:
  "always missing_user (github_request ''ghost'') = Returns missing_user \<and>
   status_code missing_user = 404 \<and>
   get_github_user plain_runtime (always missing_user) ''ghost'' =
     (Inl (HTTPException 404 (Lit ''GitHub user not found'')), [github_request ''ghost''])"
  using not_found_404 [of "always missing_user" "''ghost''" missing_user plain_runtime]
  by (simp add: always_def missing_user_def)

text \<open>
  Claim C1. When the upstream answers with status 403, the handler fails with 429 exactly
  when the header \<^verbatim>\<open>X-RateLimit-Remaining\<close> is the str \<^verbatim>\<open>0\<close> or the body is an object
  whose \<open>message\<close> is a str that, lower-cased, contains \<^verbatim>\<open>rate limit\<close>; in every other
  case it fails with 403 and a fixed detail.
\<close>

theorem forbidden_429_iff:
  assumes "client (github_request username) = Returns r" and "status_code r = 403"
  shows "(fst (get_github_user rt client username) =
            Inl (HTTPException 429
                   (Lit ''GitHub API rate limit exceeded. Try again later or add a token.''))
          \<longleftrightarrow>
          (headers r ''X-RateLimit-Remaining'' = Some ''0'' \<or>
           (\<exists>items m. json r = Some (JObj items) \<and> map_of items ''message'' = Some (JStr m) \<and>
              str_in ''rate limit'' (lower m)))) \<and>
         (fst (get_github_user rt client username) \<noteq>
            Inl (HTTPException 429
                   (Lit ''GitHub API rate limit exceeded. Try again later or add a token.''))
          \<longrightarrow>
          fst (get_github_user rt client username) =
            Inl (HTTPException 403 (Lit ''GitHub API returned 403 Forbidden.'')))"
proof -
  have res: "fst (get_github_user rt client username) = Inl (on_forbidden rt r)"
    using assms by (simp add: get_github_user_returns on_user_response_def)
  show ?thesis
    unfolding res on_forbidden_def Let_def
    using forbidden_message_rate_limit [of rt r] by (simp split: if_splits)
qed

theorem forbidden_429_iff_witness:
  "fst (get_github_user plain_runtime (always throttled) ''octocat'') =
     Inl (HTTPException 429
            (Lit ''GitHub API rate limit exceeded. Try again later or add a token.'')) \<and>
   fst (get_github_user plain_runtime (always exhausted) ''octocat'') =
     Inl (HTTPException 429
            (Lit ''GitHub API rate limit exceeded. Try again later or add a token.'')) \<and>
   fst (get_github_user plain_runtime (always blocked) ''octocat'') =
     Inl (HTTPException 403 (Lit ''GitHub API returned 403 Forbidden.''))"
  using forbidden_429_iff [of "always throttled" "''octocat''" throttled plain_runtime]
    forbidden_429_iff [of "always exhausted" "''octocat''" exhausted plain_runtime]
    forbidden_429_iff [of "always blocked" "''octocat''" blocked plain_runtime]
  by (simp add: always_def throttled_def exhausted_def blocked_def lower_def lower_char_def)

lemma counter_read:
  assumes "counter_value rt items key = Some n"
  shows "and_then (py_get_default (JObj items) key (JInt 0)) (py_int rt) = Inr n"
  using assms
  by (auto simp: counter_value_def and_then_def py_get_default_def py_int_def
      split: option.splits jvalue.splits sum.splits)

text \<open>
  Claim C4. When the upstream answers with a status that is not an error and a well-formed
  profile (an object whose \<open>login\<close> is a str, whose \<open>name\<close> is a str, null or absent, and
  whose counters are each an int, a str that \<^verbatim>\<open>int\<close> reads, or absent), the handler
  returns the response model with exactly the five fields: the login, the optional name,
  and the three counters as ints, 0 for an absent one.
\<close>

theorem well_formed_profile:
  assumes "client (github_request username) = Returns r"
    and "\<not> is_error r"
    and "json r = Some (JObj items)"
    and "map_of items ''login'' = Some (JStr lg)"
    and "map_of items ''name'' = Some (JStr n) \<and> nm = Some n \<or>
         (map_of items ''name'' = Some JNull \<or> map_of items ''name'' = None) \<and> nm = None"
    and "counter_value rt items ''public_repos'' = Some pr"
    and "counter_value rt items ''followers'' = Some fo"
    and "counter_value rt items ''following'' = Some fg"
  shows "get_github_user rt client username =
           (Inr \<lparr>login = lg, name = nm, public_repos = pr, followers = fo, following = fg\<rparr>,
            [github_request username])"
proof -
  obtain v where v: "py_get (JObj items) ''name'' = Inr v"
    and nm: "validate_optional_str rt v = Inr nm"
    using assms(5)
    by (auto simp: and_then_def py_get_def py_get_default_def validate_optional_str_def
          validate_str_def)
  have lg: "py_get (JObj items) ''login'' = Inr (JStr lg)"
    using assms(4) by (simp add: py_get_def py_get_default_def)
  have "build_user rt (JObj items) =
          Inr \<lparr>login = lg, name = nm, public_repos = pr, followers = fo, following = fg\<rparr>"
    unfolding build_user_def
    using lg v nm counter_read [OF assms(6)] counter_read [OF assms(7)]
      counter_read [OF assms(8)]
    by (simp add: and_then_def validate_str_def)
  moreover have "status_code r \<noteq> 404" and "status_code r \<noteq> 403"
    using assms(2) by (auto simp: is_error_def)
  ultimately have "on_user_response rt r =
      Inr \<lparr>login = lg, name = nm, public_repos = pr, followers = fo, following = fg\<rparr>"
    using assms(2,3) by (simp add: on_user_response_def)
  then show ?thesis using assms(1) by (simp add: get_github_user_returns)
qed

theorem well_formed_profile_witness:
  "get_github_user plain_runtime (always (ok_json octocat)) ''octocat'' =
     (Inr \<lparr>login = ''octocat'', name = None, public_repos = 12, followers = 20,
            following = 0\<rparr>,
      [github_request ''octocat''])"
  using well_formed_profile [where client = "always (ok_json octocat)" and username = "''octocat''"
      and r = "ok_json octocat" and rt = plain_runtime
      and items = "[(''login'', JStr ''octocat''), (''id'', JInt 583231), (''name'', JNull),
                    (''public_repos'', JStr ''12''), (''followers'', JInt 20)]"
      and lg = "''octocat''" and nm = None and pr = 12 and fo = 20 and fg = 0]
  by (simp add: always_def ok_json_def octocat_def is_error_def counter_value_def
        plain_runtime_def decimal_def strip_def is_space_def split_sign_def unsigned_def
          digit_value_def)

section \<open>Properties of \<^verbatim>\<open>get_weather\<close>\<close>

text \<open>
  Claim C5. When the API key is not configured (the variable is unset, or set to the empty
  str), the handler fails with 500 and the detail that tells how to configure it, and it
  sends no request, whatever the city and the upstream.
\<close>

theorem no_key_no_call:
  assumes "env_key = None \<or> env_key = Some []"
  shows "get_weather rt client env_key city_in =
           (Inl (HTTPException 500
              (Lit ''OpenWeather API key not configured. Set OPENWEATHER_API_KEY env var or .env file.'')),
            [])"
  using assms by (auto simp: get_weather_def key_not_configured_def)

theorem no_key_no_call_witness:
  "get_weather plain_runtime unreachable None ''London'' =
     (Inl (HTTPException 500
        (Lit ''OpenWeather API key not configured. Set OPENWEATHER_API_KEY env var or .env file.'')),
      [])"
  using no_key_no_call [of None plain_runtime unreachable "''London''"]
  by simp

lemma geocode_returns:
  "api_key \<noteq> [] \<Longrightarrow> client (geocode_request api_key c) = Returns geo \<Longrightarrow>
   get_weather rt client (Some api_key) c =
     (case on_geo_response rt c geo of
        Inl f \<Rightarrow> (Inl f, [geocode_request api_key c])
      | Inr (lat, lon, resolved_name) \<Rightarrow>
          (case current_weather rt client api_key lat lon resolved_name of
             (res, sent) \<Rightarrow> (res, geocode_request api_key c # sent)))"
  by (simp add: get_weather_def geocode_then_weather_def Let_def)

lemma geo_coordinates:
  assumes "\<not> is_error geo" and "json geo = Some (JArr (JObj place # rest))"
    and "map_of place ''lat'' = Some lat" and "lat \<noteq> JNull"
    and "map_of place ''lon'' = Some lon" and "lon \<noteq> JNull"
  shows "on_geo_response rt c geo =
           Inr (lat, lon,
                py_or rt (case map_of place ''name'' of None \<Rightarrow> JNull | Some v \<Rightarrow> v) (JStr c))"
  using assms
  by (simp add: on_geo_response_def isinstance_list_def elements_def and_then_def py_get_def
        py_get_default_def split: option.splits)

lemma weather_returns:
  "client (weather_request api_key lat lon) = Returns w \<Longrightarrow>
   current_weather rt client api_key lat lon nm =
     (on_weather_response rt nm w, [weather_request api_key lat lon])"
  by (simp add: current_weather_def)

lemma temp_read_iff:
  "\<not> isl (and_then (and_then (py_item payload ''main'') (\<lambda>m. py_item m ''temp'')) (py_float rt))
     \<longleftrightarrow> has_temp rt payload"
  by (auto simp: has_temp_def and_then_def py_item_def split: jvalue.splits option.splits)

lemma description_read_iff:
  "\<not> isl (and_then (and_then (py_item payload ''weather'') py_first)
            (\<lambda>w. py_item w ''description''))
     \<longleftrightarrow> has_description payload"
  by (auto simp: has_description_def and_then_def py_item_def py_first_def
      split: jvalue.splits option.splits list.splits)

lemma read_payload_fails_iff:
  "isl (read_payload rt payload) \<longleftrightarrow> \<not> (has_temp rt payload \<and> has_description payload)"
proof -
  let ?t = "and_then (and_then (py_item payload ''main'') (\<lambda>m. py_item m ''temp'')) (py_float rt)"
  let ?d = "and_then (and_then (py_item payload ''weather'') py_first)
              (\<lambda>w. py_item w ''description'')"
  have "isl (read_payload rt payload) \<longleftrightarrow> isl ?t \<or> isl ?d"
    unfolding read_payload_def by (cases ?t; cases ?d) (simp_all add: and_then_def)
  then show ?thesis
    using temp_read_iff [of payload rt] description_read_iff [of payload] by blast
qed

text \<open>
  Claim C6, as the code has it. When the geocoding call returns a status that is not an
  error and a body that decodes to a value that is not a list, or to the empty list, the
  handler fails with 404 and the detail \<^verbatim>\<open>Invalid city name or city not found.\<close>,
  for every city str, whatever its casing; only the geocoding request was sent.
\<close>

theorem geocode_empty_404:
  assumes "api_key \<noteq> []"
    and "client (geocode_request api_key c) = Returns geo"
    and "\<not> is_error geo"
    and "json geo = Some places"
    and "(\<forall>xs. places \<noteq> JArr xs) \<or> places = JArr []"
  shows "get_weather rt client (Some api_key) c =
           (Inl (HTTPException 404 (Lit ''Invalid city name or city not found.'')),
            [geocode_request api_key c])"
proof -
  have "on_geo_response rt c geo =
          Inl (HTTPException 404 (Lit ''Invalid city name or city not found.''))"
    using assms(3-5)
    by (auto simp: on_geo_response_def isinstance_list_def elements_def split: jvalue.splits)
  then show ?thesis using assms(1,2) by (simp add: geocode_returns)
qed

theorem geocode_empty_404_witness:
  "get_weather plain_runtime (always (ok_json (JArr []))) (Some ''key'') ''LONDON'' =
     (Inl (HTTPException 404 (Lit ''Invalid city name or city not found.'')),
      [geocode_request ''key'' ''LONDON'']) \<and>
   get_weather plain_runtime (always (ok_json (JObj [(''cod'', JStr ''400'')]))) (Some ''key'')
       ''london'' =
     (Inl (HTTPException 404 (Lit ''Invalid city name or city not found.'')),
      [geocode_request ''key'' ''london''])"
  using geocode_empty_404 [where api_key = "''key''" and client = "always (ok_json (JArr []))"
      and c = "''LONDON''" and geo = "ok_json (JArr [])" and places = "JArr []"
      and rt = plain_runtime]
    geocode_empty_404 [where api_key = "''key''"
      and client = "always (ok_json (JObj [(''cod'', JStr ''400'')]))"
      and c = "''london''" and geo = "ok_json (JObj [(''cod'', JStr ''400'')])"
      and places = "JObj [(''cod'', JStr ''400'')]" and rt = plain_runtime]
  by (simp add: always_def ok_json_def is_error_def)

text \<open>
  Claim C6 as the specification words it does not hold for a body that does not decode:
  \<^verbatim>\<open>geo_resp.json()\<close> at line 138 is outside any \<^verbatim>\<open>try\<close>, so the handler ends with the
  decoder's exception, not with 404.
\<close>

theorem geocode_undecodable_counterexample:
  "status_code garbled = 200 \<and> json garbled = None \<and>
   get_weather plain_runtime (always garbled) (Some ''key'') ''London'' =
     (Inl (Unhandled JSONDecodeError), [geocode_request ''key'' ''London''])"
  by (simp add: get_weather_def geocode_then_weather_def on_geo_response_def always_def
        garbled_def is_error_def)

text \<open>
  Claim C7, as the code has it. When the geocoding call returns a non-empty list whose
  first element is an object with \<open>lat\<close> or \<open>lon\<close> absent (or null), the handler fails
  with 502 and the detail \<^verbatim>\<open>Geocoding returned no coordinates.\<close>; the
  current-weather request is never sent.
\<close>

theorem no_coordinates_502:
  assumes "api_key \<noteq> []"
    and "client (geocode_request api_key c) = Returns geo"
    and "\<not> is_error geo"
    and "json geo = Some (JArr (JObj place # rest))"
    and "map_of place ''lat'' = None \<or> map_of place ''lat'' = Some JNull \<or>
         map_of place ''lon'' = None \<or> map_of place ''lon'' = Some JNull"
  shows "get_weather rt client (Some api_key) c =
           (Inl (HTTPException 502 (Lit ''Geocoding returned no coordinates.'')),
            [geocode_request api_key c])"
proof -
  have "on_geo_response rt c geo =
          Inl (HTTPException 502 (Lit ''Geocoding returned no coordinates.''))"
    using assms(3-5)
    by (auto simp: on_geo_response_def isinstance_list_def elements_def and_then_def py_get_def
          py_get_default_def split: option.splits)
  then show ?thesis using assms(1,2) by (simp add: geocode_returns)
qed

theorem no_coordinates_502_witness:
  "get_weather plain_runtime (always (ok_json no_coordinates)) (Some ''key'') ''Atlantis'' =
     (Inl (HTTPException 502 (Lit ''Geocoding returned no coordinates.'')),
      [geocode_request ''key'' ''Atlantis''])"
  using no_coordinates_502 [where api_key = "''key''" and client = "always (ok_json no_coordinates)"
      and c = "''Atlantis''" and geo = "ok_json no_coordinates"
      and place = "[(''name'', JStr ''Atlantis''), (''lon'', JFloat 0)]" and rest = "[]"
      and rt = plain_runtime]
  by (simp add: always_def ok_json_def is_error_def no_coordinates_def)

text \<open>
  Claim C7 as the specification words it does not hold for a first element that is not an
  object: \<^verbatim>\<open>first.get\<close> at line 143 is outside any \<^verbatim>\<open>try\<close>, so for a list that starts
  with null or with a number the handler ends with \<^verbatim>\<open>AttributeError\<close>, not with 502.
\<close>

theorem first_not_object_counterexample:
  "get_weather plain_runtime (always (ok_json (JArr [JNull]))) (Some ''key'') ''London'' =
     (Inl (Unhandled AttributeError), [geocode_request ''key'' ''London'']) \<and>
   get_weather plain_runtime (always (ok_json (JArr [JInt 7, JObj []]))) (Some ''key'') ''London'' =
     (Inl (Unhandled AttributeError), [geocode_request ''key'' ''London''])"
  by (simp add: get_weather_def geocode_then_weather_def on_geo_response_def always_def
        ok_json_def is_error_def isinstance_list_def elements_def and_then_def py_get_def
        py_get_default_def)

text \<open>
  Claim C9. When one of the three outbound calls raises \<^verbatim>\<open>httpx.RequestError\<close> (the
  profile call, the geocoding call, or the current-weather call after a geocoding step
  that gave coordinates), the handler fails with 502, the detail ends with the text of
  that error, and no response model is returned.
\<close>

theorem network_failure_502:
  "(client (github_request username) = Raises (RequestError m) \<longrightarrow>
      get_github_user rt client username =
        (Inl (HTTPException 502 (Fmt ''Network error talking to GitHub: '' (RequestError m))),
         [github_request username])) \<and>
   (api_key \<noteq> [] \<and> client (geocode_request api_key c) = Raises (RequestError m) \<longrightarrow>
      get_weather rt client (Some api_key) c =
        (Inl (HTTPException 502
                (Fmt ''Network error talking to OpenWeather Geocoding API: '' (RequestError m))),
         [geocode_request api_key c])) \<and>
   (api_key \<noteq> [] \<and> client (geocode_request api_key c) = Returns geo \<and>
    on_geo_response rt c geo = Inr (lat, lon, nm) \<and>
    client (weather_request api_key lat lon) = Raises (RequestError m) \<longrightarrow>
      get_weather rt client (Some api_key) c =
        (Inl (HTTPException 502
                (Fmt ''Network error talking to OpenWeather Weather API: '' (RequestError m))),
         [geocode_request api_key c, weather_request api_key lat lon]))"
  by (simp add: get_github_user_def get_weather_def geocode_then_weather_def current_weather_def)


theorem network_failure_502_witness:
  "get_github_user plain_runtime unreachable ''octocat'' =
     (Inl (HTTPException 502
             (Fmt ''Network error talking to GitHub: ''
                (RequestError ''All connection attempts failed''))),
      [github_request ''octocat'']) \<and>
   get_weather plain_runtime unreachable (Some ''key'') ''London'' =
     (Inl (HTTPException 502
             (Fmt ''Network error talking to OpenWeather Geocoding API: ''
                (RequestError ''All connection attempts failed''))),
      [geocode_request ''key'' ''London'']) \<and>
   get_weather plain_runtime
       (provider (Returns (ok_json london)) (Raises (RequestError ''timed out'')))
       (Some ''key'') ''London'' =
     (Inl (HTTPException 502
             (Fmt ''Network error talking to OpenWeather Weather API: ''
                (RequestError ''timed out''))),
      [geocode_request ''key'' ''London'',
       weather_request ''key'' (JFloat 51.5) (JFloat (- 0.125))])"
proof -
  have geo: "on_geo_response plain_runtime ''London'' (ok_json london) =
               Inr (JFloat 51.5, JFloat (- 0.125), JStr ''London'')"
    by (simp add: on_geo_response_def ok_json_def london_def is_error_def isinstance_list_def
          elements_def and_then_def py_get_def py_get_default_def py_or_def truthy_def)
  show ?thesis
    using network_failure_502 [where client = unreachable and username = "''octocat''"
        and m = "''All connection attempts failed''" and rt = plain_runtime
        and api_key = "''key''" and c = "''London''"]
      network_failure_502 [where
        client = "provider (Returns (ok_json london)) (Raises (RequestError ''timed out''))"
        and m = "''timed out''" and rt = plain_runtime and api_key = "''key''"
        and c = "''London''" and geo = "ok_json london" and lat = "JFloat 51.5"
        and lon = "JFloat (- 0.125)" and nm = "JStr ''London''"]
      geo
    by (simp add: unreachable_def provider_def geocode_request_def weather_request_def)
qed

lemma read_payload_value:
  assumes "map_of payload ''main'' = Some (JObj inner)"
    and "map_of inner ''temp'' = Some t"
    and "py_float rt t = Inr temp_c"
    and "map_of payload ''weather'' = Some (JArr (JObj cond # others))"
    and "map_of cond ''description'' = Some dv"
  shows "read_payload rt (JObj payload) = Inr (temp_c, py_str rt dv)"
  using assms by (simp add: read_payload_def and_then_def py_item_def py_first_def)

lemma weather_flow:
  assumes "api_key \<noteq> []"
    and "client (geocode_request api_key c) = Returns geo"
    and "\<not> is_error geo"
    and "json geo = Some (JArr (JObj place # rest))"
    and "map_of place ''lat'' = Some lat" and "lat \<noteq> JNull"
    and "map_of place ''lon'' = Some lon" and "lon \<noteq> JNull"
    and "client (weather_request api_key lat lon) = Returns w"
    and "\<not> is_error w"
    and "json w = Some (JObj payload)"
    and "map_of payload ''main'' = Some (JObj inner)"
    and "map_of inner ''temp'' = Some t"
    and "py_float rt t = Inr temp_c"
    and "map_of payload ''weather'' = Some (JArr (JObj cond # others))"
    and "map_of cond ''description'' = Some dv"
  shows "get_weather rt client (Some api_key) c =
           (case validate_str rt
                   (py_or rt (case map_of place ''name'' of None \<Rightarrow> JNull | Some v \<Rightarrow> v)
                      (JStr c)) of
              Inl e \<Rightarrow> Inl (Unhandled e)
            | Inr s \<Rightarrow>
                Inr \<lparr>city = s, temperature = temp_c, weather_description = py_str rt dv\<rparr>,
            [geocode_request api_key c, weather_request api_key lat lon])"
proof -
  let ?nm = "py_or rt (case map_of place ''name'' of None \<Rightarrow> JNull | Some v \<Rightarrow> v) (JStr c)"
  have geo: "on_geo_response rt c geo = Inr (lat, lon, ?nm)"
    using assms(3-8) by (rule geo_coordinates)
  have rp: "read_payload rt (JObj payload) = Inr (temp_c, py_str rt dv)"
    using assms(12-16) by (rule read_payload_value)
  have cur: "current_weather rt client api_key lat lon ?nm =
               (on_weather_response rt ?nm w, [weather_request api_key lat lon])"
    using assms(9) by (rule weather_returns)
  have "on_weather_response rt ?nm w =
          (case validate_str rt ?nm of
             Inl e \<Rightarrow> Inl (Unhandled e)
           | Inr s \<Rightarrow>
               Inr \<lparr>city = s, temperature = temp_c, weather_description = py_str rt dv\<rparr>)"
    using assms(10,11) rp by (simp add: on_weather_response_def)
  then show ?thesis
    using assms(1,2) geo cur by (simp add: geocode_returns)
qed

text \<open>
  Claim C8. When both calls of the weather provider succeed with well-shaped bodies, the
  handler returns a response whose \<open>city\<close> is the \<open>name\<close> of the first geocoding result
  (the caller's city str when the result has no \<open>name\<close>), whose \<open>temperature\<close> is what
  \<^verbatim>\<open>float\<close> gives for \<open>main.temp\<close> (a float is passed on as it is; the request asks
  for metric units), and whose \<open>weather_description\<close> is the \<open>description\<close> of the first
  element of \<open>weather\<close>; the geocoding request and the current-weather request were sent,
  in this order.
\<close>

theorem weather_success:
  assumes "api_key \<noteq> []"
    and "client (geocode_request api_key c) = Returns geo"
    and "\<not> is_error geo"
    and "json geo = Some (JArr (JObj place # rest))"
    and "map_of place ''lat'' = Some lat" and "lat \<noteq> JNull"
    and "map_of place ''lon'' = Some lon" and "lon \<noteq> JNull"
    and "map_of place ''name'' = Some (JStr n) \<and> n \<noteq> [] \<and> resolved = n \<or>
         map_of place ''name'' = None \<and> resolved = c"
    and "client (weather_request api_key lat lon) = Returns w"
    and "\<not> is_error w"
    and "json w = Some (JObj payload)"
    and "map_of payload ''main'' = Some (JObj inner)"
    and "map_of inner ''temp'' = Some t"
    and "py_float rt t = Inr temp_c"
    and "map_of payload ''weather'' = Some (JArr (JObj cond # others))"
    and "map_of cond ''description'' = Some (JStr d)"
  shows "get_weather rt client (Some api_key) c =
           (Inr \<lparr>city = resolved, temperature = temp_c, weather_description = d\<rparr>,
            [geocode_request api_key c, weather_request api_key lat lon])"
proof -
  have "validate_str rt
          (py_or rt (case map_of place ''name'' of None \<Rightarrow> JNull | Some v \<Rightarrow> v) (JStr c)) =
        Inr resolved"
    using assms(9) by (auto simp: validate_str_def py_or_def truthy_def)
  then show ?thesis
    using weather_flow [OF assms(1-8) assms(10-17)] by (simp add: py_str_def)
qed

theorem weather_success_witness:
  "get_weather plain_runtime (provider (Returns (ok_json london)) (Returns (ok_json light_rain)))
       (Some ''key'') ''london'' =
     (Inr \<lparr>city = ''London'', temperature = 11.5, weather_description = ''light rain''\<rparr>,
      [geocode_request ''key'' ''london'',
       weather_request ''key'' (JFloat 51.5) (JFloat (- 0.125))])"
  using weather_success [where api_key = "''key''"
      and client = "provider (Returns (ok_json london)) (Returns (ok_json light_rain))"
      and c = "''london''" and geo = "ok_json london"
      and place = "[(''name'', JStr ''London''), (''lat'', JFloat 51.5), (''lon'', JFloat (- 0.125))]"
      and rest = "[]" and lat = "JFloat 51.5" and lon = "JFloat (- 0.125)"
      and n = "''London''" and resolved = "''London''" and w = "ok_json light_rain"
      and payload = "[(''weather'', JArr [JObj [(''id'', JInt 500), (''description'', JStr ''light rain'')]]),
                      (''main'', JObj [(''temp'', JFloat 11.5), (''humidity'', JInt 81)])]"
      and inner = "[(''temp'', JFloat 11.5), (''humidity'', JInt 81)]"
      and t = "JFloat 11.5" and temp_c = "11.5" and rt = plain_runtime
      and cond = "[(''id'', JInt 500), (''description'', JStr ''light rain'')]"
      and others = "[]" and d = "''light rain''"]
  by (simp add: provider_def ok_json_def london_def light_rain_def is_error_def
        geocode_request_def weather_request_def py_float_def)

text \<open>
  Claim C10. The fallback of \<open>city\<close> to the caller's str is taken for a falsy \<open>name\<close> too:
  when the first geocoding result has \<open>name\<close> equal to the empty str or to null, and both
  calls succeed, the \<open>city\<close> of the response is the caller's city str.
\<close>

theorem falsy_name_falls_back:
  assumes "api_key \<noteq> []"
    and "client (geocode_request api_key c) = Returns geo"
    and "\<not> is_error geo"
    and "json geo = Some (JArr (JObj place # rest))"
    and "map_of place ''lat'' = Some lat" and "lat \<noteq> JNull"
    and "map_of place ''lon'' = Some lon" and "lon \<noteq> JNull"
    and "map_of place ''name'' = Some (JStr '''') \<or> map_of place ''name'' = Some JNull"
    and "client (weather_request api_key lat lon) = Returns w"
    and "\<not> is_error w"
    and "json w = Some (JObj payload)"
    and "map_of payload ''main'' = Some (JObj inner)"
    and "map_of inner ''temp'' = Some t"
    and "py_float rt t = Inr temp_c"
    and "map_of payload ''weather'' = Some (JArr (JObj cond # others))"
    and "map_of cond ''description'' = Some dv"
  shows "get_weather rt client (Some api_key) c =
           (Inr \<lparr>city = c, temperature = temp_c, weather_description = py_str rt dv\<rparr>,
            [geocode_request api_key c, weather_request api_key lat lon])"
proof -
  have "validate_str rt
          (py_or rt (case map_of place ''name'' of None \<Rightarrow> JNull | Some v \<Rightarrow> v) (JStr c)) =
        Inr c"
    using assms(9) by (auto simp: validate_str_def py_or_def truthy_def)
  then show ?thesis
    using weather_flow [OF assms(1-8) assms(10-17)] by simp
qed


theorem falsy_name_falls_back_witness:
  "get_weather plain_runtime
       (provider (Returns (ok_json nameless_place)) (Returns (ok_json light_rain)))
       (Some ''key'') ''Greenwich'' =
     (Inr \<lparr>city = ''Greenwich'', temperature = 11.5, weather_description = ''light rain''\<rparr>,
      [geocode_request ''key'' ''Greenwich'',
       weather_request ''key'' (JFloat 51.5) (JFloat (- 0.125))])"
  using falsy_name_falls_back [where api_key = "''key''"
      and client = "provider (Returns (ok_json nameless_place)) (Returns (ok_json light_rain))"
      and c = "''Greenwich''" and geo = "ok_json nameless_place"
      and place = "[(''name'', JStr []), (''lat'', JFloat 51.5), (''lon'', JFloat (- 0.125))]"
      and rest = "[]" and lat = "JFloat 51.5" and lon = "JFloat (- 0.125)"
      and w = "ok_json light_rain"
      and payload = "[(''weather'', JArr [JObj [(''id'', JInt 500), (''description'', JStr ''light rain'')]]),
                      (''main'', JObj [(''temp'', JFloat 11.5), (''humidity'', JInt 81)])]"
      and inner = "[(''temp'', JFloat 11.5), (''humidity'', JInt 81)]"
      and t = "JFloat 11.5" and temp_c = "11.5" and rt = plain_runtime
      and cond = "[(''id'', JInt 500), (''description'', JStr ''light rain'')]"
      and others = "[]" and dv = "JStr ''light rain''"]
  by (simp add: provider_def ok_json_def nameless_place_def light_rain_def is_error_def
        geocode_request_def weather_request_def py_float_def py_str_def)

section \<open>Bodies that do not have the expected shape\<close>

lemma and_then_Inl: "and_then (Inl e) k = Inl e"
  by (simp add: and_then_def)

lemma and_then_Inr: "and_then (Inr x) k = k x"
  by (simp add: and_then_def)

lemma build_user_fails_iff:
  "isl (build_user rt data) \<longleftrightarrow> \<not> profile_ok rt data"
proof (cases data)
  case (JObj items)
  let ?lg = "case map_of items ''login'' of None \<Rightarrow> JNull | Some v \<Rightarrow> v"
  let ?nm = "case map_of items ''name'' of None \<Rightarrow> JNull | Some v \<Rightarrow> v"
  let ?pr = "and_then (py_get_default (JObj items) ''public_repos'' (JInt 0)) (py_int rt)"
  let ?fo = "and_then (py_get_default (JObj items) ''followers'' (JInt 0)) (py_int rt)"
  let ?fg = "and_then (py_get_default (JObj items) ''following'' (JInt 0)) (py_int rt)"
  have g: "py_get (JObj items) key = Inr (case map_of items key of None \<Rightarrow> JNull | Some v \<Rightarrow> v)"
    for key
    by (simp add: py_get_def py_get_default_def split: option.splits)
  have c: "isl (and_then (py_get_default (JObj items) key (JInt 0)) (py_int rt)) \<longleftrightarrow>
             \<not> counter_ok rt items key" for key
    by (simp add: and_then_def py_get_default_def counter_ok_def py_int_def split: option.splits)
  have l: "isl (validate_str rt ?lg) \<longleftrightarrow>
             \<not> (case map_of items ''login'' of
                  None \<Rightarrow> False
                | Some v \<Rightarrow> \<not> isl (validate_str rt v))"
    by (simp add: validate_str_def split: option.splits)
  have n: "isl (validate_optional_str rt ?nm) \<longleftrightarrow>
             \<not> (case map_of items ''name'' of
                  None \<Rightarrow> True
                | Some v \<Rightarrow> \<not> isl (validate_optional_str rt v))"
    by (simp add: validate_optional_str_def split: option.splits)
  have "isl (build_user rt (JObj items)) \<longleftrightarrow>
          isl ?pr \<or> isl ?fo \<or> isl ?fg \<or> isl (validate_str rt ?lg) \<or>
          isl (validate_optional_str rt ?nm)"
    unfolding build_user_def g and_then_Inr
    by (cases ?pr; cases ?fo; cases ?fg; cases "validate_str rt ?lg";
        cases "validate_optional_str rt ?nm")
       (simp_all add: and_then_Inl and_then_Inr)
  then show ?thesis
    unfolding JObj c l n by (auto simp: profile_ok_def)
qed (simp_all add: build_user_def py_get_def py_get_default_def and_then_def profile_ok_def)

lemma london_coordinates:
  "on_geo_response plain_runtime c (ok_json london) =
     Inr (JFloat 51.5, JFloat (- 0.125), JStr ''London'')"
  by (simp add: on_geo_response_def ok_json_def london_def is_error_def isinstance_list_def
        elements_def and_then_def py_get_def py_get_default_def py_or_def truthy_def)

text \<open>
  Claim C2, as the code has it. When the upstream answers with a status that is not an
  error and a body that decodes but does not have the expected shape, the handler fails
  with 500 and a detail that starts with \<^verbatim>\<open>Unexpected response shape from\<close> and ends
  with the text of the exception: in \<^verbatim>\<open>get_github_user\<close> for a profile that is not
  \<open>profile_ok\<close>, in \<^verbatim>\<open>get_weather\<close> (after a geocoding step that gave coordinates) for
  a current-conditions body without a \<open>main.temp\<close> that \<^verbatim>\<open>float\<close> converts or without
  a \<open>weather[0].description\<close>. Nothing else happens on such a body.
\<close>

theorem shape_failure_500:
  "(client (github_request username) = Returns r \<and> \<not> is_error r \<and> json r = Some data \<and>
    \<not> profile_ok rt data \<longrightarrow>
      (\<exists>e. get_github_user rt client username =
             (Inl (HTTPException 500 (Fmt ''Unexpected response shape from GitHub: '' e)),
              [github_request username]))) \<and>
   (api_key \<noteq> [] \<and> client (geocode_request api_key c) = Returns geo \<and>
    on_geo_response rt c geo = Inr (lat, lon, nm) \<and>
    client (weather_request api_key lat lon) = Returns w \<and> \<not> is_error w \<and>
    json w = Some payload \<and> \<not> (has_temp rt payload \<and> has_description payload) \<longrightarrow>
      (\<exists>e. get_weather rt client (Some api_key) c =
             (Inl (HTTPException 500
                     (Fmt ''Unexpected response shape from OpenWeather: '' e)),
              [geocode_request api_key c, weather_request api_key lat lon])))"
proof (intro conjI impI)
  assume a: "client (github_request username) = Returns r \<and> \<not> is_error r \<and>
             json r = Some data \<and> \<not> profile_ok rt data"
  then obtain e where e: "build_user rt data = Inl e"
    using build_user_fails_iff [of rt data] by (cases "build_user rt data") auto
  have "status_code r \<noteq> 404" and "status_code r \<noteq> 403"
    using a by (auto simp: is_error_def)
  then have "on_user_response rt r =
               Inl (HTTPException 500 (Fmt ''Unexpected response shape from GitHub: '' e))"
    using a e by (simp add: on_user_response_def)
  then show "\<exists>e. get_github_user rt client username =
             (Inl (HTTPException 500 (Fmt ''Unexpected response shape from GitHub: '' e)),
              [github_request username])"
    using a by (simp add: get_github_user_returns)
next
  assume a: "api_key \<noteq> [] \<and> client (geocode_request api_key c) = Returns geo \<and>
    on_geo_response rt c geo = Inr (lat, lon, nm) \<and>
    client (weather_request api_key lat lon) = Returns w \<and> \<not> is_error w \<and>
    json w = Some payload \<and> \<not> (has_temp rt payload \<and> has_description payload)"
  then obtain e where e: "read_payload rt payload = Inl e"
    using read_payload_fails_iff [of rt payload] by (cases "read_payload rt payload") auto
  have "on_weather_response rt nm w =
          Inl (HTTPException 500 (Fmt ''Unexpected response shape from OpenWeather: '' e))"
    using a e by (simp add: on_weather_response_def)
  then show "\<exists>e. get_weather rt client (Some api_key) c =
             (Inl (HTTPException 500
                     (Fmt ''Unexpected response shape from OpenWeather: '' e)),
              [geocode_request api_key c, weather_request api_key lat lon])"
    using a by (simp add: geocode_returns weather_returns)
qed

theorem shape_failure_500_witness:
  "get_github_user plain_runtime (always (ok_json uncounted)) ''octocat'' =
     (Inl (HTTPException 500 (Fmt ''Unexpected response shape from GitHub: '' ValueError)),
      [github_request ''octocat'']) \<and>
   get_weather plain_runtime (provider (Returns (ok_json london)) (Returns (ok_json no_temp)))
       (Some ''key'') ''London'' =
     (Inl (HTTPException 500 (Fmt ''Unexpected response shape from OpenWeather: '' KeyError)),
      [geocode_request ''key'' ''London'',
       weather_request ''key'' (JFloat 51.5) (JFloat (- 0.125))])"
proof -
  have u: "\<not> profile_ok plain_runtime uncounted"
    by (simp add: profile_ok_def uncounted_def counter_ok_def py_int_def plain_runtime_def
          decimal_def strip_def is_space_def split_sign_def unsigned_def
          digit_value_def)
  have t: "\<not> has_temp plain_runtime no_temp"
    by (simp add: has_temp_def no_temp_def)
  have bu: "build_user plain_runtime uncounted = Inl ValueError"
    by (simp add: build_user_def uncounted_def and_then_def py_get_def py_get_default_def
          py_int_def plain_runtime_def decimal_def strip_def is_space_def split_sign_def unsigned_def
          digit_value_def)
  have rp: "read_payload plain_runtime no_temp = Inl KeyError"
    by (simp add: read_payload_def no_temp_def and_then_def py_item_def)
  show ?thesis
    using shape_failure_500 [where client = "always (ok_json uncounted)"
        and username = "''octocat''" and r = "ok_json uncounted" and data = uncounted
        and rt = plain_runtime]
      shape_failure_500 [where
        client = "provider (Returns (ok_json london)) (Returns (ok_json no_temp))"
        and api_key = "''key''" and c = "''London''" and geo = "ok_json london"
        and lat = "JFloat 51.5" and lon = "JFloat (- 0.125)" and nm = "JStr ''London''"
        and w = "ok_json no_temp" and payload = no_temp and rt = plain_runtime]
      u t bu rp london_coordinates [of "''London''"]
    by (simp add: always_def provider_def ok_json_def is_error_def geocode_request_def
          weather_request_def get_github_user_def on_user_response_def get_weather_def
          geocode_then_weather_def current_weather_def on_weather_response_def)
qed

text \<open>
  Claim C2 as the specification words it does not hold. \<^verbatim>\<open>r.json()\<close> is called outside
  the \<^verbatim>\<open>try\<close> in both handlers, so a body that does not decode ends the handler with
  the decoder's exception, not with the 500 of the \<^verbatim>\<open>except\<close> branch; and a
  \<open>description\<close> that is not a str is not a failure at all, since \<^verbatim>\<open>str\<close> converts it.
\<close>

theorem shape_failure_counterexample:
  "get_github_user plain_runtime (always garbled) ''octocat'' =
     (Inl (Unhandled JSONDecodeError), [github_request ''octocat'']) \<and>
   get_weather plain_runtime (provider (Returns (ok_json london)) (Returns garbled))
       (Some ''key'') ''London'' =
     (Inl (Unhandled JSONDecodeError),
      [geocode_request ''key'' ''London'',
       weather_request ''key'' (JFloat 51.5) (JFloat (- 0.125))]) \<and>
   get_weather plain_runtime
       (provider (Returns (ok_json london)) (Returns (ok_json numeric_description)))
       (Some ''key'') ''London'' =
     (Inr \<lparr>city = ''London'', temperature = 11.5, weather_description = ''500''\<rparr>,
      [geocode_request ''key'' ''London'',
       weather_request ''key'' (JFloat 51.5) (JFloat (- 0.125))])"
proof -
  have rp: "read_payload plain_runtime numeric_description = Inr (11.5, ''500'')"
    by (simp add: read_payload_def numeric_description_def and_then_def py_item_def
          py_first_def py_float_def py_str_def plain_runtime_def plain_repr_def show_int_def)
  show ?thesis
    using rp london_coordinates [of "''London''"]
    by (simp add: always_def provider_def ok_json_def garbled_def is_error_def
          geocode_request_def weather_request_def get_github_user_def on_user_response_def
          get_weather_def geocode_then_weather_def current_weather_def
          on_weather_response_def validate_str_def)
qed

end
